theory Spec2Isabelle
  imports Complex_Main
begin

section \<open>Python values and exceptions\<close>

text \<open>
  The two modules of the repository are Python glue around Maya: \<^verbatim>\<open>mllInterface.py\<close>
  forwards every call to the compiled command \<^verbatim>\<open>ngst2Layers\<close>, and
  \<^verbatim>\<open>ilm_importFromJson_actions.py\<close> matches the joints of an exported file against
  the scene. Exceptions are values of \<open>error\<close>; a call that can raise returns
  \<open>error + 'a\<close> with \<open>Inl\<close> for the exception. Python floats are passed
  through unchanged by this code and are represented by \<open>real\<close>.
\<close>

datatype error =
    TypeError
  | ValueError
  | IndexError
  | InvalidLayerId
  | DimensionMismatch
  | CommandError

datatype pyval =
    PNone
  | PBool bool
  | PInt int
  | PFloat real
  | PStr string
  | PList "pyval list"

section \<open>ilm\_importFromJson\_actions.py\<close>

text \<open>
  A parsed record of the import file. The list comprehension of \<^verbatim>\<open>ilm_data_list\<close>
  reads \<^verbatim>\<open>item['path']\<close> and nothing else; the rest of the record is carried along
  as \<open>item_weights\<close>. The records are the parsed ones, so each has its path (a
  record without the key would raise \<^verbatim>\<open>KeyError\<close> at line 54). Reading and parsing
  the file (lines 44 to 48) is Maya's and the plugin's work; the model starts from the
  parsed \<^verbatim>\<open>data\<close>.
\<close>

record 'w influence_item =
  path :: string
  item_weights :: 'w

text \<open>Python's \<^verbatim>\<open>str.split(sep)\<close> for a one-character separator.\<close>

fun split :: "char \<Rightarrow> string \<Rightarrow> string list" where
  "split sep [] = [[]]"
| "split sep (c # cs) =
     (if c = sep then [] # split sep cs
      else (case split sep cs of
              [] \<Rightarrow> [[c]]
            | w # ws \<Rightarrow> (c # w) # ws))"

text \<open>\<^verbatim>\<open>xs[-1]\<close>: the last element, \<^verbatim>\<open>IndexError\<close> on an empty list.\<close>

definition index_last :: "'a list \<Rightarrow> error + 'a" where
  "index_last xs = (case xs of [] \<Rightarrow> Inl IndexError | _ \<Rightarrow> Inr (last xs))"

text \<open>
  The text given to \<^verbatim>\<open>cmds.warning\<close> for an object missing from the scene:
  \<^verbatim>\<open>'{} {}'.format(object.split("|")[-1], "doesn't exist in the scene")\<close>.
\<close>

definition warning_text :: "string \<Rightarrow> error + string" where
  "warning_text object =
     (case index_last (split (CHR ''|'') object) of
        Inl e \<Rightarrow> Inl e
      | Inr objectName \<Rightarrow> Inr (objectName @ '' '' @ ''doesn't exist in the scene''))"

text \<open>
  Lines 52 to 54: \<^verbatim>\<open>jointsSelectList = []\<close>, then for each group of
  \<^verbatim>\<open>data.values()\<close> the assignment
  \<^verbatim>\<open>jointsSelectList = [(item['path']) for item in values]\<close>. The second argument
  is the value of \<^verbatim>\<open>jointsSelectList\<close> before the remaining iterations.
\<close>

fun joints_loop :: "'w influence_item list list \<Rightarrow> string list \<Rightarrow> string list" where
  "joints_loop [] jointsSelectList = jointsSelectList"
| "joints_loop (values # rest) jointsSelectList = joints_loop rest (map path values)"

text \<open>
  Lines 56 to 62: the loop over \<^verbatim>\<open>jointsSelectList\<close>. The state is
  \<^verbatim>\<open>newList\<close> and the warnings printed so far; \<open>objExists\<close> is
  \<^verbatim>\<open>cmds.objExists\<close> on the current scene. The result is \<^verbatim>\<open>newList\<close>
  after the loop (or the exception that ended it) and the warnings printed.
\<close>

fun match_loop ::
  "(string \<Rightarrow> bool) \<Rightarrow> string list \<Rightarrow> string list \<times> string list
     \<Rightarrow> (error + string list) \<times> string list" where
  "match_loop objExists [] (newList, warnings) = (Inr newList, warnings)"
| "match_loop objExists (object # rest) (newList, warnings) =
     (if objExists object then match_loop objExists rest (newList @ [object], warnings)
      else (case warning_text object of
              Inl e \<Rightarrow> (Inl e, warnings)
            | Inr w \<Rightarrow> match_loop objExists rest (newList, warnings @ [w])))"

text \<open>
  \<^verbatim>\<open>ilm_data_list\<close> from the parsed \<^verbatim>\<open>data\<close> on (a dict from group name to
  a list of records, in insertion order); \<open>jointsSelectList\<close> is the value of that
  variable after line 54. The result is the list of warnings printed and either the
  exception raised or the returned list.
\<close>

definition jointsSelectList :: "(string \<times> 'w influence_item list) list \<Rightarrow> string list" where
  "jointsSelectList data = (let data_values = map snd data in joints_loop data_values [])"

definition ilm_data_list ::
  "(string \<Rightarrow> bool) \<Rightarrow> (string \<times> 'w influence_item list) list
     \<Rightarrow> string list \<times> (error + string list)" where
  "ilm_data_list objExists data =
     (case match_loop objExists (jointsSelectList data) ([], []) of
        (Inl e, warnings) \<Rightarrow> (warnings, Inl e)
      | (Inr newList, warnings) \<Rightarrow>
          if newList = [] then (warnings, Inl ValueError)
          else (warnings, Inr newList))"

text \<open>
  The warning printed for a missing object, once \<^verbatim>\<open>split\<close> is known never to
  return an empty list.
\<close>

definition missing_warning :: "string \<Rightarrow> string" where
  "missing_warning object = last (split (CHR ''|'') object) @ '' doesn't exist in the scene''"

section \<open>mllInterface.py\<close>

subsection \<open>Maya, as the wrapper sees it\<close>

text \<open>
  \<^verbatim>\<open>cmds.ngst2Layers(*args, **kwargs)\<close> and \<^verbatim>\<open>mel.eval(melCmd)\<close> are the two
  entry points into Maya that \<^verbatim>\<open>MllInterface\<close> uses; both are compiled code outside
  the repository, so they are parameters of the model: functions on a Maya state
  \<open>'h\<close> that return a value or raise. Keyword arguments are an association list in
  the order the call writes them. \<open>str_float\<close> is Python's \<^verbatim>\<open>str\<close> on a float.
\<close>

type_synonym kwargs = "(string \<times> pyval) list"

record 'h maya =
  ngst2Layers :: "pyval list \<Rightarrow> kwargs \<Rightarrow> 'h \<Rightarrow> (error + pyval) \<times> 'h"
  mel_eval :: "string \<Rightarrow> 'h \<Rightarrow> (error + pyval) \<times> 'h"
  str_float :: "real \<Rightarrow> string"

text \<open>\<^verbatim>\<open>kwargs[key] = value\<close>: in place when the key is there, appended otherwise.\<close>

fun kwargs_set :: "kwargs \<Rightarrow> string \<Rightarrow> pyval \<Rightarrow> kwargs" where
  "kwargs_set [] key v = [(key, v)]"
| "kwargs_set ((k, w) # rest) key v =
     (if k = key then (k, v) # rest else (k, w) # kwargs_set rest key v)"

subsection \<open>Python built-ins the wrapper calls\<close>

text \<open>
  \<^verbatim>\<open>int(layerId)\<close> for a parameter that is an integer or \<^verbatim>\<open>None\<close>:
  \<^verbatim>\<open>int(None)\<close> raises \<^verbatim>\<open>TypeError\<close>.
\<close>

definition py_int :: "int option \<Rightarrow> error + int" where
  "py_int v = (case v of None \<Rightarrow> Inl TypeError | Some i \<Rightarrow> Inr i)"

text \<open>\<^verbatim>\<open>result == k\<close> for an integer literal \<open>k\<close>.\<close>

fun py_eq_int :: "pyval \<Rightarrow> int \<Rightarrow> bool" where
  "py_eq_int (PInt n) k = (n = k)"
| "py_eq_int (PFloat r) k = (r = of_int k)"
| "py_eq_int (PBool b) k = ((if b then 1 else 0) = k)"
| "py_eq_int PNone k = False"
| "py_eq_int (PStr s) k = False"
| "py_eq_int (PList xs) k = False"

text \<open>\<^verbatim>\<open>str(n)\<close> and \<^verbatim>\<open>'{0}'.format(n)\<close> for an integer: its decimal digits.\<close>

definition digit_char :: "nat \<Rightarrow> char" where
  "digit_char d = ''0123456789'' ! d"

function str_nat :: "nat \<Rightarrow> string" where
  "str_nat n = (if n < 10 then [digit_char n] else str_nat (n div 10) @ [digit_char (n mod 10)])"
  by pat_completeness auto
termination
  by (relation "measure id") auto

definition str_int :: "int \<Rightarrow> string" where
  "str_int i = (if i < 0 then CHR ''-'' # str_nat (nat (- i)) else str_nat (nat i))"

text \<open>\<^verbatim>\<open>sep.join(parts)\<close>.\<close>

fun join :: "string \<Rightarrow> string list \<Rightarrow> string" where
  "join sep [] = []"
| "join sep [x] = x"
| "join sep (x # y # ys) = x @ sep @ join sep (y # ys)"

text \<open>
  A list comprehension \<^verbatim>\<open>[f(i) for i in xs]\<close> whose element expression can raise:
  the first exception ends it.
\<close>

fun comprehension :: "('a \<Rightarrow> error + 'b) \<Rightarrow> 'a list \<Rightarrow> error + 'b list" where
  "comprehension f [] = Inr []"
| "comprehension f (x # xs) =
     (case f x of
        Inl e \<Rightarrow> Inl e
      | Inr y \<Rightarrow> (case comprehension f xs of Inl e \<Rightarrow> Inl e | Inr ys \<Rightarrow> Inr (y # ys)))"

text \<open>
  The built-in types \<^verbatim>\<open>float\<close> and \<^verbatim>\<open>int\<close> as values. \<^verbatim>\<open>_type[i]\<close> subscripts
  the type object; neither type defines \<^verbatim>\<open>__class_getitem__\<close>, so the subscript
  raises \<^verbatim>\<open>TypeError\<close> whatever \<open>i\<close> is.
\<close>

datatype pytype = FloatType | IntType

definition type_subscript :: "pytype \<Rightarrow> pyval \<Rightarrow> error + pyval" where
  "type_subscript ty i = Inl TypeError"

text \<open>\<^verbatim>\<open>for i in result\<close>: the elements iterated, \<^verbatim>\<open>TypeError\<close> when not iterable.\<close>

fun py_iter :: "pyval \<Rightarrow> error + pyval list" where
  "py_iter (PList xs) = Inr xs"
| "py_iter (PStr s) = Inr (map (\<lambda>c. PStr [c]) s)"
| "py_iter PNone = Inl TypeError"
| "py_iter (PBool b) = Inl TypeError"
| "py_iter (PInt n) = Inl TypeError"
| "py_iter (PFloat r) = Inl TypeError"

subsection \<open>MllInterface\<close>

definition MASK :: string where
  "MASK = ''mask''"

definition DUAL_QUATERNION :: string where
  "DUAL_QUATERNION = ''dq''"

definition TARGET_REFERENCE_MESH :: string where
  "TARGET_REFERENCE_MESH = ''ngSkinTools#TargetRefMesh''"

text \<open>The object: \<^verbatim>\<open>self.mesh\<close> is a node name or \<^verbatim>\<open>None\<close>.\<close>

record MllInterface =
  mesh :: "string option"

text \<open>
  A paint target is "either a logical influence index or named influences mask, dq":
  an integer or a string, passed as it is in keyword arguments and formatted with
  \<^verbatim>\<open>'{1}'.format\<close> in MEL text.
\<close>

datatype paint_target = InfluenceIndex int | NamedPaintTarget string

fun target_value :: "paint_target \<Rightarrow> pyval" where
  "target_value (InfluenceIndex i) = PInt i"
| "target_value (NamedPaintTarget n) = PStr n"

fun target_format :: "paint_target \<Rightarrow> string" where
  "target_format (InfluenceIndex i) = str_int i"
| "target_format (NamedPaintTarget n) = n"

definition ngSkinLayerCmd ::
  "'h maya \<Rightarrow> MllInterface \<Rightarrow> pyval list \<Rightarrow> kwargs \<Rightarrow> 'h \<Rightarrow> (error + pyval) \<times> 'h" where
  "ngSkinLayerCmd env self args kwargs =
     (case mesh self of
        None \<Rightarrow> ngst2Layers env args kwargs
      | Some m \<Rightarrow>
          if m = TARGET_REFERENCE_MESH
          then ngst2Layers env args (kwargs_set kwargs ''targetReferenceMesh'' (PBool True))
          else ngst2Layers env (PStr m # args) kwargs)"

definition ngSkinLayerCmdMel ::
  "'h maya \<Rightarrow> MllInterface \<Rightarrow> string \<Rightarrow> 'h \<Rightarrow> (error + pyval) \<times> 'h" where
  "ngSkinLayerCmdMel env self melCmd =
     (let melCmd = ''ngst2Layers '' @ melCmd;
          melCmd = (case mesh self of
                      None \<Rightarrow> melCmd
                    | Some m \<Rightarrow>
                        if m = TARGET_REFERENCE_MESH then melCmd @ '' -targetReferenceMesh''
                        else melCmd @ '' '' @ m)
      in mel_eval env melCmd)"

definition getCurrentLayer :: "'h maya \<Rightarrow> MllInterface \<Rightarrow> 'h \<Rightarrow> (error + pyval) \<times> 'h" where
  "getCurrentLayer env self s =
     (case ngSkinLayerCmd env self [] [(''q'', PBool True), (''cl'', PBool True)] s of
        (Inl e, s') \<Rightarrow> (Inl e, s')
      | (Inr result, s') \<Rightarrow>
          if py_eq_int result 0 then (Inr PNone, s') else (Inr result, s'))"

definition setLayerOpacity ::
  "'h maya \<Rightarrow> MllInterface \<Rightarrow> int \<Rightarrow> real \<Rightarrow> 'h \<Rightarrow> (error + pyval) \<times> 'h" where
  "setLayerOpacity env self layerId opacity s =
     (case ngSkinLayerCmd env self []
             [(''e'', PBool True), (''id'', PInt layerId), (''opacity'', PFloat opacity)] s of
        (Inl e, s') \<Rightarrow> (Inl e, s')
      | (Inr _, s') \<Rightarrow> (Inr PNone, s'))"

definition asTypeList :: "pytype \<Rightarrow> pyval \<Rightarrow> error + pyval list" where
  "asTypeList ty result =
     (if result = PNone then Inr []
      else (case py_iter result of
              Inl e \<Rightarrow> Inl e
            | Inr xs \<Rightarrow> comprehension (type_subscript ty) xs))"

definition asFloatList :: "pyval \<Rightarrow> error + pyval list" where
  "asFloatList result = asTypeList FloatType result"

definition asIntList :: "pyval \<Rightarrow> error + pyval list" where
  "asIntList result = asTypeList IntType result"

text \<open>
  \<^verbatim>\<open>__floatListAsString\<close>: \<^verbatim>\<open>not floatList\<close> holds for \<^verbatim>\<open>None\<close> and for the
  empty list.
\<close>

definition floatListAsString :: "'h maya \<Rightarrow> real list option \<Rightarrow> string" where
  "floatListAsString env floatList =
     (case floatList of
        None \<Rightarrow> ''''
      | Some fs \<Rightarrow> if fs = [] then '''' else join '','' (map (str_float env) fs))"

definition setLayerParent ::
  "'h maya \<Rightarrow> MllInterface \<Rightarrow> int \<Rightarrow> int option \<Rightarrow> 'h \<Rightarrow> (error + pyval) \<times> 'h" where
  "setLayerParent env self layerId parentLayerId s =
     (let parentLayerId = (case parentLayerId of None \<Rightarrow> Some 0 | Some p \<Rightarrow> Some p)
      in case py_int parentLayerId of
           Inl e \<Rightarrow> (Inl e, s)
         | Inr p \<Rightarrow>
             (case ngSkinLayerCmd env self []
                     [(''e'', PBool True), (''id'', PInt layerId), (''parent'', PInt p)] s of
                (Inl e, s') \<Rightarrow> (Inl e, s')
              | (Inr _, s') \<Rightarrow> (Inr PNone, s')))"

definition getLayerParent ::
  "'h maya \<Rightarrow> MllInterface \<Rightarrow> int \<Rightarrow> 'h \<Rightarrow> (error + pyval) \<times> 'h" where
  "getLayerParent env self layerId s =
     (case ngSkinLayerCmdMel env self (''-id '' @ str_int layerId @ '' -q -parent'') s of
        (Inl e, s') \<Rightarrow> (Inl e, s')
      | (Inr result, s') \<Rightarrow>
          if py_eq_int result 0 then (Inr PNone, s') else (Inr result, s'))"

definition getInfluenceWeights ::
  "'h maya \<Rightarrow> MllInterface \<Rightarrow> int \<Rightarrow> paint_target \<Rightarrow> 'h \<Rightarrow> (error + pyval list) \<times> 'h" where
  "getInfluenceWeights env self layerId influence s =
     (case ngSkinLayerCmdMel env self
             (''-id '' @ str_int layerId @ '' -paintTarget '' @ target_format influence
                @ '' -q -w '') s of
        (Inl e, s') \<Rightarrow> (Inl e, s')
      | (Inr result, s') \<Rightarrow> (asFloatList result, s'))"

definition setInfluenceWeights ::
  "'h maya \<Rightarrow> MllInterface \<Rightarrow> int \<Rightarrow> paint_target \<Rightarrow> real list option \<Rightarrow> bool \<Rightarrow> 'h
     \<Rightarrow> (error + pyval) \<times> 'h" where
  "setInfluenceWeights env self layerId influence weights undoEnabled s =
     (case ngSkinLayerCmd env self []
             [(''e'', PBool True), (''id'', PInt layerId),
              (''paintTarget'', target_value influence),
              (''vertexWeights'', PStr (floatListAsString env weights)),
              (''undoEnabled'', PBool undoEnabled)] s of
        (Inl e, s') \<Rightarrow> (Inl e, s')
      | (Inr _, s') \<Rightarrow> (Inr PNone, s'))"

definition getLayerMask ::
  "'h maya \<Rightarrow> MllInterface \<Rightarrow> int \<Rightarrow> 'h \<Rightarrow> (error + pyval list) \<times> 'h" where
  "getLayerMask env self layerId s =
     getInfluenceWeights env self layerId (NamedPaintTarget MASK) s"

definition setLayerMask ::
  "'h maya \<Rightarrow> MllInterface \<Rightarrow> int \<Rightarrow> real list option \<Rightarrow> 'h \<Rightarrow> (error + pyval) \<times> 'h" where
  "setLayerMask env self layerId weights s =
     setInfluenceWeights env self layerId (NamedPaintTarget MASK) weights True s"

definition setCurrentLayer ::
  "'h maya \<Rightarrow> MllInterface \<Rightarrow> int option \<Rightarrow> 'h \<Rightarrow> (error + pyval) \<times> 'h" where
  "setCurrentLayer env self layerId s =
     (let layerId = (case layerId of None \<Rightarrow> Some 0 | Some i \<Rightarrow> Some i)
      in case py_int layerId of
           Inl e \<Rightarrow> (Inl e, s)
         | Inr i \<Rightarrow> ngSkinLayerCmd env self [] [(''cl'', PInt i)] s)"

definition beginDataUpdate :: "'h maya \<Rightarrow> MllInterface \<Rightarrow> 'h \<Rightarrow> (error + pyval) \<times> 'h" where
  "beginDataUpdate env self s =
     (case ngSkinLayerCmd env self [] [(''beginDataUpdate'', PBool True)] s of
        (Inl e, s') \<Rightarrow> (Inl e, s')
      | (Inr _, s') \<Rightarrow> (Inr PNone, s'))"

definition endDataUpdate :: "'h maya \<Rightarrow> MllInterface \<Rightarrow> 'h \<Rightarrow> (error + pyval) \<times> 'h" where
  "endDataUpdate env self s =
     (case ngSkinLayerCmd env self [] [(''endDataUpdate'', PBool True)] s of
        (Inl e, s') \<Rightarrow> (Inl e, s')
      | (Inr _, s') \<Rightarrow> (Inr PNone, s'))"

text \<open>
  \<^verbatim>\<open>pruneWeights\<close> and \<^verbatim>\<open>pruneMask\<close>: the keyword arguments are evaluated before
  the call, so an exception of \<^verbatim>\<open>int(layerId)\<close> leaves Maya untouched.
\<close>

definition pruneWeights ::
  "'h maya \<Rightarrow> MllInterface \<Rightarrow> int option \<Rightarrow> real \<Rightarrow> 'h \<Rightarrow> (error + pyval) \<times> 'h" where
  "pruneWeights env self layerId threshold s =
     (case py_int layerId of
        Inl e \<Rightarrow> (Inl e, s)
      | Inr i \<Rightarrow>
          (case ngSkinLayerCmd env self []
                  [(''e'', PBool True), (''layerId'', PInt i), (''pruneWeights'', PBool True),
                   (''pruneWeightsThreshold'', PFloat threshold)] s of
             (Inl e, s') \<Rightarrow> (Inl e, s')
           | (Inr _, s') \<Rightarrow> (Inr PNone, s')))"

definition pruneMask ::
  "'h maya \<Rightarrow> MllInterface \<Rightarrow> int option \<Rightarrow> real \<Rightarrow> 'h \<Rightarrow> (error + pyval) \<times> 'h" where
  "pruneMask env self layerId threshold s =
     (case py_int layerId of
        Inl e \<Rightarrow> (Inl e, s)
      | Inr i \<Rightarrow>
          (case ngSkinLayerCmd env self []
                  [(''e'', PBool True), (''layerId'', PInt i), (''pruneMask'', PBool True),
                   (''pruneWeightsThreshold'', PFloat threshold)] s of
             (Inl e, s') \<Rightarrow> (Inl e, s')
           | (Inr _, s') \<Rightarrow> (Inr PNone, s')))"

subsection \<open>BatchUpdateContext and the with statement\<close>

record BatchUpdateContext =
  mll :: MllInterface

definition batchUpdateContext :: "MllInterface \<Rightarrow> BatchUpdateContext" where
  "batchUpdateContext self = \<lparr>mll = self\<rparr>"

definition enter ::
  "'h maya \<Rightarrow> BatchUpdateContext \<Rightarrow> 'h \<Rightarrow> (error + MllInterface) \<times> 'h" where
  "enter env self s =
     (case beginDataUpdate env (mll self) s of
        (Inl e, s') \<Rightarrow> (Inl e, s')
      | (Inr _, s') \<Rightarrow> (Inr (mll self), s'))"

text \<open>
  \<^verbatim>\<open>__exit__(self, _type, value, traceback)\<close>: the three arguments describe the
  exception of the body, if any, and are not read. The method returns \<^verbatim>\<open>None\<close>.
\<close>

definition exit ::
  "'h maya \<Rightarrow> BatchUpdateContext \<Rightarrow> error option \<Rightarrow> 'h \<Rightarrow> (error + pyval) \<times> 'h" where
  "exit env self exc s =
     (case endDataUpdate env (mll self) s of
        (Inl e, s') \<Rightarrow> (Inl e, s')
      | (Inr _, s') \<Rightarrow> (Inr PNone, s'))"

text \<open>Truth value of what \<^verbatim>\<open>__exit__\<close> returned: a true value swallows the exception.\<close>

fun truthy :: "pyval \<Rightarrow> bool" where
  "truthy PNone = False"
| "truthy (PBool b) = b"
| "truthy (PInt n) = (n \<noteq> 0)"
| "truthy (PFloat r) = (r \<noteq> 0)"
| "truthy (PStr s) = (s \<noteq> [])"
| "truthy (PList xs) = (xs \<noteq> [])"

text \<open>
  Python's \<^verbatim>\<open>with ctx as v: body\<close>. \<^verbatim>\<open>__enter__\<close> runs first; when it raises,
  the body and \<^verbatim>\<open>__exit__\<close> do not run. Otherwise the body runs and \<^verbatim>\<open>__exit__\<close>
  is called, with the body's exception if it raised one; an exception of
  \<^verbatim>\<open>__exit__\<close> replaces the body's, and the body's exception is raised again unless
  \<^verbatim>\<open>__exit__\<close> returned a true value.
\<close>

definition with_statement ::
  "('h \<Rightarrow> (error + 'v) \<times> 'h) \<Rightarrow> (error option \<Rightarrow> 'h \<Rightarrow> (error + pyval) \<times> 'h)
     \<Rightarrow> ('v \<Rightarrow> 'h \<Rightarrow> (error + unit) \<times> 'h) \<Rightarrow> 'h \<Rightarrow> (error + unit) \<times> 'h" where
  "with_statement enter_m exit_m body s =
     (case enter_m s of
        (Inl e, s1) \<Rightarrow> (Inl e, s1)
      | (Inr v, s1) \<Rightarrow>
          (case body v s1 of
             (Inr u, s2) \<Rightarrow>
               (case exit_m None s2 of
                  (Inl e, s3) \<Rightarrow> (Inl e, s3)
                | (Inr _, s3) \<Rightarrow> (Inr (), s3))
           | (Inl e, s2) \<Rightarrow>
               (case exit_m (Some e) s2 of
                  (Inl e', s3) \<Rightarrow> (Inl e', s3)
                | (Inr swallow, s3) \<Rightarrow> if truthy swallow then (Inr (), s3) else (Inl e, s3))))"

text \<open>\<^verbatim>\<open>with mll.batchUpdateContext(): body\<close>.\<close>

definition with_batchUpdateContext ::
  "'h maya \<Rightarrow> MllInterface \<Rightarrow> (MllInterface \<Rightarrow> 'h \<Rightarrow> (error + unit) \<times> 'h) \<Rightarrow> 'h
     \<Rightarrow> (error + unit) \<times> 'h" where
  "with_batchUpdateContext env self body s =
     (let ctx = batchUpdateContext self
      in with_statement (enter env ctx) (exit env ctx) body s)"

subsection \<open>A Maya that records what it is asked\<close>

text \<open>
  For running the wrapper on concrete inputs: a Maya whose state is the list of requests
  received so far and that answers every request with the same value.
\<close>

datatype request = Command "pyval list" kwargs | Mel string

definition recording_maya :: "pyval \<Rightarrow> request list maya" where
  "recording_maya reply =
     \<lparr>ngst2Layers = (\<lambda>args kw log. (Inr reply, log @ [Command args kw])),
      mel_eval = (\<lambda>melCmd log. (Inr reply, log @ [Mel melCmd])),
      str_float = (\<lambda>r. ''<float>'')\<rparr>"

section \<open>The layer store behind the command\<close>

text \<open>
  What \<^verbatim>\<open>ngst2Layers\<close> does with a request is compiled code that the repository
  does not hold. The definitions of this section are modelled from the spec (its
  sections 3, 4.1, 4.4 and 7); the flags and the MEL text they decode are the ones
  \<^verbatim>\<open>mllInterface.py\<close> writes.
\<close>

text \<open>
  Modelled from the spec: the paint target, "tagged union: Influence(index: integer),
  Mask, DualQuaternionBlend". The compiled command's own type is missing.
\<close>

datatype buffer_target = Influence int | Mask | DualQuaternionBlend

text \<open>
  Modelled from the spec: the store of one mesh context, as far as weight buffers and
  the batch update scope need it (the compiled layer data node is missing). A weight
  buffer is a "sequence of floats, length == mesh vertex count", and the "empty
  sequence means uninitialized"; \<open>suspension\<close> is the scope's "suspension counter";
  \<open>recompositions\<close> counts the recompositions run so far.
\<close>

record store =
  vertexCount :: nat
  layerIds :: "int list"
  buffers :: "int \<times> buffer_target \<Rightarrow> real list"
  suspension :: nat
  recompositions :: nat

text \<open>
  Modelled from the spec: "while counter > 0, Layer Store mutation operations must not
  trigger recomposition"; outside a scope a mutation recomposes at once. The compiled
  update logic is missing.
\<close>

definition mutated :: "store \<Rightarrow> store" where
  "mutated st =
     (if suspension st = 0 then st\<lparr>recompositions := recompositions st + 1\<rparr> else st)"

text \<open>
  Modelled from the spec: "begin() increments a suspension counter" (the compiled
  \<^verbatim>\<open>beginDataUpdate\<close> flag is missing).
\<close>

definition scope_begin :: "store \<Rightarrow> store" where
  "scope_begin st = st\<lparr>suspension := suspension st + 1\<rparr>"

text \<open>
  Modelled from the spec: "end() decrements; when it reaches zero, a single
  recomposition runs covering all accumulated changes" (the compiled
  \<^verbatim>\<open>endDataUpdate\<close> flag is missing). The spec does not say what an end without
  a begin does; it is an error here and changes nothing.
\<close>

definition scope_end :: "store \<Rightarrow> (error + pyval) \<times> store" where
  "scope_end st =
     (case suspension st of
        0 \<Rightarrow> (Inl CommandError, st)
      | Suc n \<Rightarrow>
          (Inr PNone,
           if n = 0 then st\<lparr>suspension := 0, recompositions := recompositions st + 1\<rparr>
           else st\<lparr>suspension := n\<rparr>))"

text \<open>
  Modelled from the spec: the weight buffer's \<^verbatim>\<open>set(values)\<close>, "values above 1.0
  are capped to 1.0 on write", "setting an empty sequence resets the buffer to
  uninitialized", with the errors \<^verbatim>\<open>InvalidLayerId\<close> and
  \<^verbatim>\<open>DimensionMismatch\<close> of section 7, which leave the store as it was. The
  compiled \<^verbatim>\<open>vertexWeights\<close> flag is missing.
\<close>

definition buffer_set ::
  "int \<Rightarrow> buffer_target \<Rightarrow> real list \<Rightarrow> store \<Rightarrow> (error + pyval) \<times> store" where
  "buffer_set layerId target vs st =
     (if layerId \<notin> set (layerIds st) then (Inl InvalidLayerId, st)
      else if vs = [] then
        (Inr PNone, mutated (st\<lparr>buffers := (buffers st)((layerId, target) := [])\<rparr>))
      else if length vs \<noteq> vertexCount st then (Inl DimensionMismatch, st)
      else
        (Inr PNone, mutated (st\<lparr>buffers := (buffers st)((layerId, target) := map (min 1) vs)\<rparr>)))"

text \<open>
  Modelled from the spec: the weight buffer's \<^verbatim>\<open>get()\<close>, a "sequence of float (len
  = vertex count or 0)". The compiled \<^verbatim>\<open>-q -w\<close> query is missing.
\<close>

definition buffer_get ::
  "int \<Rightarrow> buffer_target \<Rightarrow> store \<Rightarrow> (error + pyval) \<times> store" where
  "buffer_get layerId target st =
     (if layerId \<notin> set (layerIds st) then (Inl InvalidLayerId, st)
      else (Inr (PList (map PFloat (buffers st (layerId, target)))), st))"

subsection \<open>Decoding requests\<close>

text \<open>Reading an integer from its decimal text, as MEL reads the argument of a flag.\<close>

definition digit_value :: "char \<Rightarrow> nat option" where
  "digit_value c =
     (if c \<in> set ''0123456789'' then Some (length (takeWhile (\<lambda>d. d \<noteq> c) ''0123456789''))
      else None)"

fun nat_of_digits :: "string \<Rightarrow> nat \<Rightarrow> nat option" where
  "nat_of_digits [] acc = Some acc"
| "nat_of_digits (c # cs) acc =
     (case digit_value c of
        None \<Rightarrow> None
      | Some d \<Rightarrow> nat_of_digits cs (10 * acc + d))"

definition nat_of_str :: "string \<Rightarrow> nat option" where
  "nat_of_str s = (if s = [] then None else nat_of_digits s 0)"

definition int_of_str :: "string \<Rightarrow> int option" where
  "int_of_str s =
     (case s of
        [] \<Rightarrow> None
      | c # cs \<Rightarrow>
          if c = CHR ''-'' then map_option (\<lambda>n. - int n) (nat_of_str cs)
          else map_option int (nat_of_str s))"

text \<open>The words of a MEL command line: maximal runs without a blank.\<close>

fun scan :: "string \<Rightarrow> string \<Rightarrow> string list" where
  "scan w [] = (if w = [] then [] else [w])"
| "scan w (c # cs) =
     (if c = CHR '' '' then (if w = [] then scan [] cs else w # scan [] cs)
      else scan (w @ [c]) cs)"

definition mel_words :: "string \<Rightarrow> string list" where
  "mel_words melCmd = scan [] melCmd"

text \<open>
  Modelled from the spec: the paint target named by a keyword argument (an influence
  index, or the names \<^verbatim>\<open>mask\<close> and \<^verbatim>\<open>dq\<close> of \<^verbatim>\<open>NamedPaintTarget\<close>) and by a
  word of a MEL line. The compiled flag parser is missing.
\<close>

definition target_of_value :: "pyval \<Rightarrow> buffer_target option" where
  "target_of_value v =
     (case v of
        PInt i \<Rightarrow> Some (Influence i)
      | PStr n \<Rightarrow>
          if n = MASK then Some Mask
          else if n = DUAL_QUATERNION then Some DualQuaternionBlend
          else None
      | _ \<Rightarrow> None)"

definition target_of_word :: "string \<Rightarrow> buffer_target option" where
  "target_of_word w =
     (case int_of_str w of
        Some i \<Rightarrow> Some (Influence i)
      | None \<Rightarrow>
          if w = MASK then Some Mask
          else if w = DUAL_QUATERNION then Some DualQuaternionBlend
          else None)"

text \<open>
  Modelled from the spec: the command on keyword arguments, for the requests of
  \<^verbatim>\<open>beginDataUpdate\<close>, \<^verbatim>\<open>endDataUpdate\<close> and \<^verbatim>\<open>setInfluenceWeights\<close>; any
  other request is an error here. The store is one mesh context, so the positional
  mesh argument and the reference mesh flag are not read. \<open>parse_weights\<close> reads
  the comma-delimited text of \<^verbatim>\<open>vertexWeights\<close> back into floats; the empty
  text is the empty sequence. The compiled command is missing.
\<close>

definition store_request ::
  "(string \<Rightarrow> real list option) \<Rightarrow> pyval option \<Rightarrow> pyval option \<Rightarrow> pyval option
     \<Rightarrow> pyval option \<Rightarrow> pyval option \<Rightarrow> pyval option \<Rightarrow> store
     \<Rightarrow> (error + pyval) \<times> store" where
  "store_request parse_weights begin_flag end_flag edit_flag id_flag target_flag weights_flag st =
     (if begin_flag = Some (PBool True) then (Inr PNone, scope_begin st)
      else if end_flag = Some (PBool True) then scope_end st
      else (case (edit_flag, id_flag) of
              (Some (PBool True), Some (PInt layerId)) \<Rightarrow>
                (case (target_flag, weights_flag) of
                   (Some t, Some (PStr text)) \<Rightarrow>
                     (case target_of_value t of
                        None \<Rightarrow> (Inl CommandError, st)
                      | Some target \<Rightarrow>
                          if text = [] then buffer_set layerId target [] st
                          else (case parse_weights text of
                                  None \<Rightarrow> (Inl CommandError, st)
                                | Some vs \<Rightarrow> buffer_set layerId target vs st))
                 | _ \<Rightarrow> (Inl CommandError, st))
            | _ \<Rightarrow> (Inl CommandError, st)))"

text \<open>
  Modelled from the spec: the command reads the flags it knows from the keyword
  arguments and acts on them as \<open>store_request\<close> says. The compiled command is
  missing.
\<close>

definition store_ngst2Layers ::
  "(string \<Rightarrow> real list option) \<Rightarrow> pyval list \<Rightarrow> kwargs \<Rightarrow> store
     \<Rightarrow> (error + pyval) \<times> store" where
  "store_ngst2Layers parse_weights args kw st =
     store_request parse_weights
       (map_of kw ''beginDataUpdate'') (map_of kw ''endDataUpdate'')
       (map_of kw ''e'') (map_of kw ''id'')
       (map_of kw ''paintTarget'') (map_of kw ''vertexWeights'') st"

text \<open>
  Modelled from the spec: the command on a MEL line, for the weights query
  \<^verbatim>\<open>ngst2Layers -id N -paintTarget T -q -w\<close> of \<^verbatim>\<open>getInfluenceWeights\<close>; the
  words after it (the mesh) are not read. The compiled command is missing.
\<close>

definition store_mel_eval :: "string \<Rightarrow> store \<Rightarrow> (error + pyval) \<times> store" where
  "store_mel_eval melCmd st =
     (case mel_words melCmd of
        c # f1 # n # f2 # t # f3 # f4 # rest \<Rightarrow>
          if c = ''ngst2Layers'' \<and> f1 = ''-id'' \<and> f2 = ''-paintTarget''
             \<and> f3 = ''-q'' \<and> f4 = ''-w''
          then (case (int_of_str n, target_of_word t) of
                  (Some layerId, Some target) \<Rightarrow> buffer_get layerId target st
                | _ \<Rightarrow> (Inl CommandError, st))
          else (Inl CommandError, st)
      | _ \<Rightarrow> (Inl CommandError, st))"

text \<open>
  Modelled from the spec: Maya with the store as its state. The compiled plugin is
  missing; Python's printing of floats is the parameter \<open>format_float\<close>.
\<close>

definition store_maya ::
  "(string \<Rightarrow> real list option) \<Rightarrow> (real \<Rightarrow> string) \<Rightarrow> store maya" where
  "store_maya parse_weights format_float =
     \<lparr>ngst2Layers = store_ngst2Layers parse_weights,
      mel_eval = store_mel_eval,
      str_float = format_float\<rparr>"

text \<open>The paint targets of the wrapper that name a buffer, and the buffer each names.\<close>

fun buffer_of :: "paint_target \<Rightarrow> buffer_target option" where
  "buffer_of (InfluenceIndex i) = Some (Influence i)"
| "buffer_of (NamedPaintTarget n) =
     (if n = MASK then Some Mask
      else if n = DUAL_QUATERNION then Some DualQuaternionBlend
      else None)"

subsection \<open>Sequences of calls\<close>

text \<open>
  A straight-line client of the interface: calls of \<^verbatim>\<open>beginDataUpdate\<close>,
  \<^verbatim>\<open>endDataUpdate\<close> and of the weight setters, run in order; an exception ends the
  run.
\<close>

datatype call =
    BeginDataUpdate
  | EndDataUpdate
  | SetInfluenceWeights int paint_target "real list option"
  | SetLayerMask int "real list option"

fun run_call :: "'h maya \<Rightarrow> MllInterface \<Rightarrow> call \<Rightarrow> 'h \<Rightarrow> (error + pyval) \<times> 'h" where
  "run_call env self BeginDataUpdate s = beginDataUpdate env self s"
| "run_call env self EndDataUpdate s = endDataUpdate env self s"
| "run_call env self (SetInfluenceWeights layerId influence ws) s =
     setInfluenceWeights env self layerId influence ws True s"
| "run_call env self (SetLayerMask layerId ws) s = setLayerMask env self layerId ws s"

fun run_calls :: "'h maya \<Rightarrow> MllInterface \<Rightarrow> call list \<Rightarrow> 'h \<Rightarrow> (error + unit) \<times> 'h" where
  "run_calls env self [] s = (Inr (), s)"
| "run_calls env self (c # cs) s =
     (case run_call env self c s of
        (Inl e, s') \<Rightarrow> (Inl e, s')
      | (Inr _, s') \<Rightarrow> run_calls env self cs s')"

text \<open>
  Proper nesting: read from depth \<open>d\<close>, every \<^verbatim>\<open>endDataUpdate\<close> closes a
  \<^verbatim>\<open>beginDataUpdate\<close> of the sequence and none is left open.
\<close>

fun properly_nested :: "nat \<Rightarrow> call list \<Rightarrow> bool" where
  "properly_nested d [] = (d = 0)"
| "properly_nested d (BeginDataUpdate # cs) = properly_nested (Suc d) cs"
| "properly_nested d (EndDataUpdate # cs) =
     (case d of 0 \<Rightarrow> False | Suc d' \<Rightarrow> properly_nested d' cs)"
| "properly_nested d (c # cs) = properly_nested d cs"

text \<open>
  The mutations the store accepts, on a store with the layers \<open>ids\<close> and \<open>n\<close>
  vertices: the layer exists, the paint target names a buffer, and the weights are the
  empty sequence or print to a text that reads back as one weight per vertex. These are
  the calls that do not raise \<^verbatim>\<open>InvalidLayerId\<close>, \<^verbatim>\<open>DimensionMismatch\<close> or
  \<^verbatim>\<open>CommandError\<close>.
\<close>

definition weights_accepted ::
  "(string \<Rightarrow> real list option) \<Rightarrow> (real \<Rightarrow> string) \<Rightarrow> nat \<Rightarrow> real list option \<Rightarrow> bool" where
  "weights_accepted p f n ws =
     (let text = floatListAsString (store_maya p f) ws
      in text = [] \<or> (case p text of None \<Rightarrow> False | Some vs \<Rightarrow> vs = [] \<or> length vs = n))"

fun valid_call ::
  "(string \<Rightarrow> real list option) \<Rightarrow> (real \<Rightarrow> string) \<Rightarrow> int list \<Rightarrow> nat \<Rightarrow> call \<Rightarrow> bool" where
  "valid_call p f ids n BeginDataUpdate = True"
| "valid_call p f ids n EndDataUpdate = True"
| "valid_call p f ids n (SetInfluenceWeights layerId influence ws) =
     (layerId \<in> set ids \<and> buffer_of influence \<noteq> None \<and> weights_accepted p f n ws)"
| "valid_call p f ids n (SetLayerMask layerId ws) =
     (layerId \<in> set ids \<and> weights_accepted p f n ws)"

subsection \<open>A store to run on\<close>

text \<open>
  A mesh of three vertices with the layers 1 and 2 and the mask of layer 1 painted, and
  a printer and a reader of floats that agree on the three values used.
\<close>

definition example_store :: store where
  "example_store =
     \<lparr>vertexCount = 3, layerIds = [1, 2],
      buffers = (\<lambda>b. if b = (1, Mask) then [1, 1 / 2, 0] else []),
      suspension = 0, recompositions = 0\<rparr>"

definition example_format :: "real \<Rightarrow> string" where
  "example_format r = (if r = 1 then ''1.0'' else if r = 1 / 2 then ''0.5'' else ''0.0'')"

definition example_parse :: "string \<Rightarrow> real list option" where
  "example_parse text = (if text = ''1.0,0.5,0.0'' then Some [1, 1 / 2, 0] else None)"

section \<open>Properties of ilm\_data\_list\<close>

lemma split_not_Nil: "split sep s \<noteq> []"
  by (induction s) (auto split: list.splits)

lemma warning_text_eq: "warning_text object = Inr (missing_warning object)"
  using split_not_Nil [of "CHR ''|''" object]
  by (auto simp: warning_text_def index_last_def missing_warning_def split: list.splits)

lemma joints_loop_last:
  "joints_loop groups acc = (if groups = [] then acc else map path (last groups))"
  by (induction groups acc rule: joints_loop.induct) auto

lemma jointsSelectList_last:
  "jointsSelectList data = (if data = [] then [] else map path (snd (last data)))"
  by (simp add: jointsSelectList_def joints_loop_last last_map)

lemma match_loop_eq:
  "match_loop objExists objs (newList, warnings) =
     (Inr (newList @ filter objExists objs),
      warnings @ map missing_warning (filter (\<lambda>object. \<not> objExists object) objs))"
  by (induction objs arbitrary: newList warnings) (auto simp: warning_text_eq)

lemma ilm_data_list_eq:
  "ilm_data_list objExists data =
     (map missing_warning (filter (\<lambda>object. \<not> objExists object) (jointsSelectList data)),
      if filter objExists (jointsSelectList data) = [] then Inl ValueError
      else Inr (filter objExists (jointsSelectList data)))"
  by (simp add: ilm_data_list_def match_loop_eq)

text \<open>
  Whatever groups come first in the file, the call is the call on the last group alone.
\<close>

lemma ilm_data_list_last_group:
  "ilm_data_list objExists (data @ [last_group]) = ilm_data_list objExists [last_group]"
  by (simp add: ilm_data_list_eq jointsSelectList_last)

text \<open>
  C1. The claim: the returned list holds the paths of the records of all groups of the
  file that exist in the scene. The loop of lines 53 and 54 assigns
  \<^verbatim>\<open>jointsSelectList\<close> anew for every group instead of extending it, so only the
  last group is matched: with two groups of one joint each, both in the scene, the
  function returns the joint of the second group alone.
\<close>

theorem ilm_data_list_keeps_last_group_only:
  "ilm_data_list (\<lambda>object. True)
     [(''influences'', [\<lparr>path = ''|root|hip'', item_weights = [1, 0 :: real]\<rparr>]),
      (''extra'', [\<lparr>path = ''|root|arm'', item_weights = [0, 1]\<rparr>])]
   = ([], Inr [''|root|arm''])"
  by (simp add: ilm_data_list_eq jointsSelectList_last)

text \<open>
  C2. The claim: every object the file refers to that is absent from the scene gets a
  warning, and the import raises exactly when no object of the file is found. The
  matching loop of lines 57 to 62 does warn about and skip each absent object of the
  list it is given (\<open>ilm_data_list_eq\<close>), but the list is that of the last group
  alone (the slip of lines 53 and 54, as for C1). So an absent joint of an earlier group
  gets no warning; and when the joints of an earlier group are in the scene and the one
  of the last group is not, the call raises \<^verbatim>\<open>ValueError\<close> although joints of
  the file were found.
\<close>

theorem ilm_data_list_ignores_earlier_groups:
  "ilm_data_list (\<lambda>object. object \<in> set [''|root|hip'', ''|root|arm''])
     [(''influences'', [\<lparr>path = ''|root|gone'', item_weights = ()\<rparr>]),
      (''extra'', [\<lparr>path = ''|root|arm'', item_weights = ()\<rparr>])]
   = ([], Inr [''|root|arm''])
 \<and> ilm_data_list (\<lambda>object. object \<in> set [''|root|hip'', ''|root|arm''])
     [(''influences'', [\<lparr>path = ''|root|hip'', item_weights = ()\<rparr>,
                        \<lparr>path = ''|root|arm'', item_weights = ()\<rparr>]),
      (''extra'', [\<lparr>path = ''|root|gone'', item_weights = ()\<rparr>])]
   = ([''gone doesn't exist in the scene''], Inl ValueError)"
  by (simp add: ilm_data_list_eq jointsSelectList_last missing_warning_def)

section \<open>Properties of MllInterface\<close>

subsection \<open>Formatting and the raw command\<close>

declare str_nat.simps [simp del]

lemma str_nat_digit: "n < 10 \<Longrightarrow> str_nat n = [digit_char n]"
  by (subst str_nat.simps) simp

lemma str_nat_more: "10 \<le> n \<Longrightarrow> str_nat n = str_nat (n div 10) @ [digit_char (n mod 10)]"
  by (subst str_nat.simps) simp

lemma map_of_kwargs_set: "key \<noteq> k \<Longrightarrow> map_of (kwargs_set kw key v) k = map_of kw k"
  by (induction kw key v rule: kwargs_set.induct) auto

text \<open>
  \<^verbatim>\<open>ngSkinLayerCmd\<close> is one call of \<^verbatim>\<open>cmds.ngst2Layers\<close>; the keyword arguments of
  the caller reach it unchanged (the mesh is added as a positional argument or as the
  flag \<^verbatim>\<open>targetReferenceMesh\<close>).
\<close>

lemma ngSkinLayerCmd_passes:
  assumes "k \<noteq> ''targetReferenceMesh''"
  shows "\<exists>args kw. ngSkinLayerCmd env self [] kwargs s = ngst2Layers env args kw s
            \<and> map_of kw k = map_of kwargs k"
proof (cases "mesh self")
  case None
  then show ?thesis
    by (intro exI [of _ "[]"] exI [of _ kwargs]) (simp add: ngSkinLayerCmd_def)
next
  case (Some m)
  show ?thesis
  proof (cases "m = TARGET_REFERENCE_MESH")
    case True
    with Some assms show ?thesis
      by (intro exI [of _ "[]"]
            exI [of _ "kwargs_set kwargs ''targetReferenceMesh'' (PBool True)"])
         (simp add: ngSkinLayerCmd_def map_of_kwargs_set)
  next
    case False
    with Some show ?thesis
      by (intro exI [of _ "[PStr m]"] exI [of _ kwargs]) (simp add: ngSkinLayerCmd_def)
  qed
qed

text \<open>
  \<^verbatim>\<open>setLayerOpacity\<close> hands the opacity it is given to the command as it is: the
  wrapper neither checks nor changes the value.
\<close>

lemma setLayerOpacity_forwards:
  "\<exists>args kw. snd (setLayerOpacity env self layerId opacity s) = snd (ngst2Layers env args kw s)
     \<and> map_of kw ''opacity'' = Some (PFloat opacity)"
proof -
  obtain args kw where
    "ngSkinLayerCmd env self []
       [(''e'', PBool True), (''id'', PInt layerId), (''opacity'', PFloat opacity)] s
     = ngst2Layers env args kw s"
    "map_of kw ''opacity''
     = map_of [(''e'', PBool True), (''id'', PInt layerId), (''opacity'', PFloat opacity)]
         ''opacity''"
    using ngSkinLayerCmd_passes [of "''opacity''" env self
        "[(''e'', PBool True), (''id'', PInt layerId), (''opacity'', PFloat opacity)]" s]
    by auto
  then show ?thesis
    by (intro exI [of _ args] exI [of _ kw])
       (simp add: setLayerOpacity_def split: prod.splits sum.splits)
qed

subsection \<open>The batch update scope\<close>

text \<open>
  C3. Once \<^verbatim>\<open>__enter__\<close> has returned (the scope is entered), whatever the body does
  (\<open>r\<close> is its exception or its normal end, \<open>s2\<close> the state it leaves),
  \<^verbatim>\<open>endDataUpdate\<close> runs on the state the body left: the state after the with
  statement is the state after that call, which is one call of the command with
  \<^verbatim>\<open>endDataUpdate=True\<close>. The statement then ends as the body did, unless
  \<^verbatim>\<open>endDataUpdate\<close> itself raised.
\<close>

theorem with_batchUpdateContext_always_ends:
  assumes "beginDataUpdate env self s = (Inr v, s1)"
      and "body self s1 = (r, s2)"
  shows "snd (with_batchUpdateContext env self body s) = snd (endDataUpdate env self s2)
       \<and> fst (with_batchUpdateContext env self body s) =
           (case fst (endDataUpdate env self s2) of Inl e \<Rightarrow> Inl e | Inr u \<Rightarrow> r)
       \<and> (\<exists>args kw. snd (endDataUpdate env self s2) = snd (ngst2Layers env args kw s2)
              \<and> map_of kw ''endDataUpdate'' = Some (PBool True))"
proof -
  have "snd (with_batchUpdateContext env self body s) = snd (endDataUpdate env self s2)
      \<and> fst (with_batchUpdateContext env self body s) =
           (case fst (endDataUpdate env self s2) of Inl e \<Rightarrow> Inl e | Inr u \<Rightarrow> r)"
    using assms
    by (cases r; cases "endDataUpdate env self s2")
       (auto simp: with_batchUpdateContext_def with_statement_def enter_def exit_def
          batchUpdateContext_def endDataUpdate_def split: prod.splits sum.splits)
  moreover obtain args kw where
    "ngSkinLayerCmd env self [] [(''endDataUpdate'', PBool True)] s2 = ngst2Layers env args kw s2"
    "map_of kw ''endDataUpdate'' = map_of [(''endDataUpdate'', PBool True)] ''endDataUpdate''"
    using ngSkinLayerCmd_passes [of "''endDataUpdate''" env self "[(''endDataUpdate'', PBool True)]" s2]
    by auto
  then have "\<exists>args kw. snd (endDataUpdate env self s2) = snd (ngst2Layers env args kw s2)
              \<and> map_of kw ''endDataUpdate'' = Some (PBool True)"
    by (intro exI [of _ args] exI [of _ kw])
       (simp add: endDataUpdate_def split: prod.splits sum.splits)
  ultimately show ?thesis by simp
qed

theorem with_batchUpdateContext_always_ends_witness:
  "with_batchUpdateContext (recording_maya PNone) \<lparr>mesh = None\<rparr>
       (\<lambda>m log. (Inl ValueError, log)) []
     = (Inl ValueError,
        [Command [] [(''beginDataUpdate'', PBool True)],
         Command [] [(''endDataUpdate'', PBool True)]])"
proof -
  have b: "beginDataUpdate (recording_maya PNone) \<lparr>mesh = None\<rparr> []
             = (Inr PNone, [Command [] [(''beginDataUpdate'', PBool True)]])"
    by (simp add: beginDataUpdate_def ngSkinLayerCmd_def recording_maya_def)
  have c: "(\<lambda>m log. (Inl ValueError, log)) \<lparr>mesh = None\<rparr>
              [Command [] [(''beginDataUpdate'', PBool True)]]
             = (Inl ValueError :: error + unit, [Command [] [(''beginDataUpdate'', PBool True)]])"
    by simp
  have e: "endDataUpdate (recording_maya PNone) \<lparr>mesh = None\<rparr>
              [Command [] [(''beginDataUpdate'', PBool True)]]
           = (Inr PNone, [Command [] [(''beginDataUpdate'', PBool True)],
                          Command [] [(''endDataUpdate'', PBool True)]])"
    by (simp add: endDataUpdate_def ngSkinLayerCmd_def recording_maya_def)
  from with_batchUpdateContext_always_ends
         [where body = "\<lambda>m log. (Inl ValueError, log)", OF b c] e
  show ?thesis by (simp add: prod_eq_iff)
qed

subsection \<open>Pruning with the default layer\<close>

text \<open>
  C4. The claim: \<^verbatim>\<open>pruneWeights\<close> and \<^verbatim>\<open>pruneMask\<close> called without a layer id act
  on the current layer. Both evaluate \<^verbatim>\<open>int(layerId)\<close> with the default
  \<^verbatim>\<open>None\<close>, which raises \<^verbatim>\<open>TypeError\<close> before the command is called: Maya's
  state is the one before the call.
\<close>

theorem prune_without_layerId_raises:
  "pruneWeights env self None threshold s = (Inl TypeError, s)
   \<and> pruneMask env self None threshold s = (Inl TypeError, s)"
  by (simp add: pruneWeights_def pruneMask_def py_int_def)

subsection \<open>Reading weights back\<close>

lemma asFloatList_items: "asFloatList (PList (x # xs)) = Inl TypeError"
  by (simp add: asFloatList_def asTypeList_def type_subscript_def)

lemma asFloatList_empty: "asFloatList PNone = Inr []" "asFloatList (PList []) = Inr []"
  by (simp_all add: asFloatList_def asTypeList_def)

text \<open>Whatever layer and target: a reply that holds a weight makes the getter raise.\<close>

lemma getInfluenceWeights_items:
  assumes "ngSkinLayerCmdMel env self
             (''-id '' @ str_int layerId @ '' -paintTarget '' @ target_format influence
                @ '' -q -w '') s = (Inr (PList (x # xs)), s')"
  shows "getInfluenceWeights env self layerId influence s = (Inl TypeError, s')"
  using assms by (simp add: getInfluenceWeights_def asFloatList_items)

text \<open>
  C5. The claim: the weights set are read back (capped at 1). \<^verbatim>\<open>__asTypeList\<close>
  subscripts the type (\<^verbatim>\<open>_type[i]\<close>) where it means to convert (\<^verbatim>\<open>_type(i)\<close>), so
  reading back any buffer that holds a weight raises \<^verbatim>\<open>TypeError\<close>: here layer 1,
  influence 0, on a mesh of two vertices whose weights Maya reports as 0.5 and 1.
\<close>

theorem getInfluenceWeights_raises_on_weights:
  "getInfluenceWeights (recording_maya (PList [PFloat 0.5, PFloat 1])) \<lparr>mesh = None\<rparr> 1
     (InfluenceIndex 0) []
   = (Inl TypeError, [Mel ''ngst2Layers -id 1 -paintTarget 0 -q -w ''])"
  by (simp add: getInfluenceWeights_def ngSkinLayerCmdMel_def recording_maya_def
      asFloatList_items str_int_def str_nat_digit digit_char_def)

subsection \<open>The absent layer\<close>

text \<open>
  C10. The absent layer is id 0 on the command's side and \<^verbatim>\<open>None\<close> on the
  wrapper's. \<^verbatim>\<open>setCurrentLayer(None)\<close> is one call of the command with \<^verbatim>\<open>cl=0\<close>
  and \<^verbatim>\<open>setLayerParent(layerId, None)\<close> one with \<^verbatim>\<open>parent=0\<close>; when the command
  answers the integer \<open>n\<close>, \<^verbatim>\<open>getCurrentLayer\<close> and \<^verbatim>\<open>getLayerParent\<close> return
  \<^verbatim>\<open>None\<close> for \<open>n = 0\<close> and \<open>n\<close> otherwise. So neither getter ever returns the
  id 0, and passing 0 to a setter is the same call as passing \<^verbatim>\<open>None\<close>.
\<close>

theorem absent_layer_is_id_zero:
  "(\<exists>args kw. setCurrentLayer env self None s = ngst2Layers env args kw s
       \<and> map_of kw ''cl'' = Some (PInt 0))
 \<and> (\<exists>args kw. snd (setLayerParent env self layerId None s) = snd (ngst2Layers env args kw s)
       \<and> map_of kw ''id'' = Some (PInt layerId) \<and> map_of kw ''parent'' = Some (PInt 0))
 \<and> (ngSkinLayerCmd env self [] [(''q'', PBool True), (''cl'', PBool True)] s = (Inr (PInt n), s')
       \<longrightarrow> getCurrentLayer env self s = (Inr (if n = 0 then PNone else PInt n), s'))
 \<and> (ngSkinLayerCmdMel env self (''-id '' @ str_int layerId @ '' -q -parent'') s = (Inr (PInt n), s')
       \<longrightarrow> getLayerParent env self layerId s = (Inr (if n = 0 then PNone else PInt n), s'))
 \<and> fst (getCurrentLayer env self s) \<noteq> Inr (PInt 0)
 \<and> fst (getLayerParent env self layerId s) \<noteq> Inr (PInt 0)
 \<and> setCurrentLayer env self (Some 0) s = setCurrentLayer env self None s
 \<and> setLayerParent env self layerId (Some 0) s = setLayerParent env self layerId None s"
proof -
  obtain a1 k1 where
    "ngSkinLayerCmd env self [] [(''cl'', PInt 0)] s = ngst2Layers env a1 k1 s"
    "map_of k1 ''cl'' = map_of [(''cl'', PInt 0)] ''cl''"
    using ngSkinLayerCmd_passes [of "''cl''" env self "[(''cl'', PInt 0)]" s] by auto
  then have 1: "\<exists>args kw. setCurrentLayer env self None s = ngst2Layers env args kw s
       \<and> map_of kw ''cl'' = Some (PInt 0)"
    by (intro exI [of _ a1] exI [of _ k1]) (simp add: setCurrentLayer_def py_int_def)
  let ?kw = "[(''e'', PBool True), (''id'', PInt layerId), (''parent'', PInt 0)]"
  have 2: "\<exists>args kw. snd (setLayerParent env self layerId None s) = snd (ngst2Layers env args kw s)
       \<and> map_of kw ''id'' = Some (PInt layerId) \<and> map_of kw ''parent'' = Some (PInt 0)"
  proof (cases "mesh self")
    case None
    then show ?thesis
      by (intro exI [of _ "[]"] exI [of _ ?kw])
         (simp add: setLayerParent_def py_int_def ngSkinLayerCmd_def split: prod.splits sum.splits)
  next
    case (Some m)
    show ?thesis
    proof (cases "m = TARGET_REFERENCE_MESH")
      case True
      with Some show ?thesis
        by (intro exI [of _ "[]"] exI [of _ "kwargs_set ?kw ''targetReferenceMesh'' (PBool True)"])
           (simp add: setLayerParent_def py_int_def ngSkinLayerCmd_def
              split: prod.splits sum.splits)
    next
      case False
      with Some show ?thesis
        by (intro exI [of _ "[PStr m]"] exI [of _ ?kw])
           (simp add: setLayerParent_def py_int_def ngSkinLayerCmd_def
              split: prod.splits sum.splits)
    qed
  qed
  have 3: "ngSkinLayerCmd env self [] [(''q'', PBool True), (''cl'', PBool True)] s = (Inr (PInt n), s')
       \<longrightarrow> getCurrentLayer env self s = (Inr (if n = 0 then PNone else PInt n), s')"
    by (simp add: getCurrentLayer_def)
  have 4: "ngSkinLayerCmdMel env self (''-id '' @ str_int layerId @ '' -q -parent'') s = (Inr (PInt n), s')
       \<longrightarrow> getLayerParent env self layerId s = (Inr (if n = 0 then PNone else PInt n), s')"
    by (simp add: getLayerParent_def)
  have 5: "fst (getCurrentLayer env self s) \<noteq> Inr (PInt 0)"
    by (auto simp: getCurrentLayer_def split: prod.splits sum.splits if_splits)
  have 6: "fst (getLayerParent env self layerId s) \<noteq> Inr (PInt 0)"
    by (auto simp: getLayerParent_def split: prod.splits sum.splits if_splits)
  have 7: "setCurrentLayer env self (Some 0) s = setCurrentLayer env self None s"
    by (simp add: setCurrentLayer_def)
  have 8: "setLayerParent env self layerId (Some 0) s = setLayerParent env self layerId None s"
    by (simp add: setLayerParent_def)
  from 1 2 3 4 5 6 7 8 show ?thesis by blast
qed

theorem absent_layer_is_id_zero_witness:
  "getCurrentLayer (recording_maya (PInt 0)) \<lparr>mesh = None\<rparr> []
     = (Inr PNone, [Command [] [(''q'', PBool True), (''cl'', PBool True)]])
 \<and> getLayerParent (recording_maya (PInt 3)) \<lparr>mesh = Some ''body''\<rparr> 7 []
     = (Inr (PInt 3), [Mel ''ngst2Layers -id 7 -q -parent body''])"
proof -
  have a: "ngSkinLayerCmd (recording_maya (PInt 0)) \<lparr>mesh = None\<rparr> []
             [(''q'', PBool True), (''cl'', PBool True)] []
           = (Inr (PInt 0), [Command [] [(''q'', PBool True), (''cl'', PBool True)]])"
    by (simp add: ngSkinLayerCmd_def recording_maya_def)
  have b: "ngSkinLayerCmdMel (recording_maya (PInt 3)) \<lparr>mesh = Some ''body''\<rparr>
             (''-id '' @ str_int 7 @ '' -q -parent'') []
           = (Inr (PInt 3), [Mel ''ngst2Layers -id 7 -q -parent body''])"
    by (simp add: ngSkinLayerCmdMel_def recording_maya_def TARGET_REFERENCE_MESH_def
        str_int_def str_nat_digit digit_char_def)
  from absent_layer_is_id_zero
         [of "recording_maya (PInt 0)" "\<lparr>mesh = None\<rparr>" "[]" 7 0
             "[Command [] [(''q'', PBool True), (''cl'', PBool True)]]"] a
  have "getCurrentLayer (recording_maya (PInt 0)) \<lparr>mesh = None\<rparr> []
     = (Inr PNone, [Command [] [(''q'', PBool True), (''cl'', PBool True)]])"
    by simp
  moreover from absent_layer_is_id_zero
         [of "recording_maya (PInt 3)" "\<lparr>mesh = Some ''body''\<rparr>" "[]" 7 3
             "[Mel ''ngst2Layers -id 7 -q -parent body'']"] b
  have "getLayerParent (recording_maya (PInt 3)) \<lparr>mesh = Some ''body''\<rparr> 7 []
     = (Inr (PInt 3), [Mel ''ngst2Layers -id 7 -q -parent body''])"
    by simp
  ultimately show ?thesis by simp
qed

section \<open>Properties of the layer store behind the command\<close>

subsection \<open>Decimal text and MEL words\<close>

lemma digit_value_digit_char: "d < 10 \<Longrightarrow> digit_value (digit_char d) = Some d"
proof -
  assume "d < 10"
  then have "d = 0 \<or> d = 1 \<or> d = 2 \<or> d = 3 \<or> d = 4 \<or> d = 5 \<or> d = 6
    \<or> d = 7 \<or> d = 8 \<or> d = 9"
    by arith
  then show ?thesis
    by (elim disjE) (simp_all add: digit_value_def digit_char_def)
qed

lemma digit_char_not_special: "d < 10 \<Longrightarrow> digit_char d \<noteq> CHR '' '' \<and> digit_char d \<noteq> CHR ''-''"
proof -
  assume "d < 10"
  then have "d = 0 \<or> d = 1 \<or> d = 2 \<or> d = 3 \<or> d = 4 \<or> d = 5 \<or> d = 6
    \<or> d = 7 \<or> d = 8 \<or> d = 9"
    by arith
  then show ?thesis
    by (elim disjE) (simp_all add: digit_char_def)
qed

lemma nat_of_digits_snoc:
  "nat_of_digits (ds @ [c]) acc =
     (case nat_of_digits ds acc of
        None \<Rightarrow> None
      | Some m \<Rightarrow> (case digit_value c of None \<Rightarrow> None | Some d \<Rightarrow> Some (10 * m + d)))"
  by (induction ds arbitrary: acc) (auto split: option.splits)

lemma nat_of_digits_str_nat: "nat_of_digits (str_nat n) 0 = Some n"
proof (induction n rule: str_nat.induct)
  case (1 n)
  show ?case
  proof (cases "n < 10")
    case True
    then show ?thesis by (simp add: str_nat_digit digit_value_digit_char)
  next
    case False
    then have eq: "str_nat n = str_nat (n div 10) @ [digit_char (n mod 10)]"
      by (simp add: str_nat_more)
    from 1 False have "nat_of_digits (str_nat (n div 10)) 0 = Some (n div 10)" by blast
    then show ?thesis
      unfolding eq by (simp add: nat_of_digits_snoc digit_value_digit_char)
  qed
qed

lemma str_nat_not_Nil: "str_nat n \<noteq> []"
  by (subst str_nat.simps) simp

lemma str_nat_chars: "c \<in> set (str_nat n) \<Longrightarrow> c \<noteq> CHR '' '' \<and> c \<noteq> CHR ''-''"
proof (induction n rule: str_nat.induct)
  case (1 n)
  show ?case
  proof (cases "n < 10")
    case True
    with 1(2) show ?thesis by (auto simp: str_nat_digit digit_char_not_special)
  next
    case False
    then have eq: "str_nat n = str_nat (n div 10) @ [digit_char (n mod 10)]"
      by (simp add: str_nat_more)
    from 1(2) have "c \<in> set (str_nat (n div 10)) \<or> c = digit_char (n mod 10)"
      unfolding eq by auto
    then show ?thesis
    proof
      assume "c \<in> set (str_nat (n div 10))"
      with 1(1) False show ?thesis by blast
    next
      assume "c = digit_char (n mod 10)"
      then show ?thesis using digit_char_not_special [of "n mod 10"] by simp
    qed
  qed
qed

lemma nat_of_str_str_nat: "nat_of_str (str_nat n) = Some n"
  by (simp add: nat_of_str_def str_nat_not_Nil nat_of_digits_str_nat)

lemma int_of_str_str_int: "int_of_str (str_int i) = Some i"
proof (cases "i < 0")
  case True
  then show ?thesis by (simp add: int_of_str_def str_int_def nat_of_str_str_nat)
next
  case False
  obtain c cs where s: "str_nat (nat i) = c # cs"
    using str_nat_not_Nil [of "nat i"] by (cases "str_nat (nat i)") auto
  then have "c \<noteq> CHR ''-''" using str_nat_chars [of c "nat i"] by simp
  with False s nat_of_str_str_nat [of "nat i"] show ?thesis
    by (simp add: int_of_str_def str_int_def)
qed

lemma str_int_no_blank: "CHR '' '' \<notin> set (str_int i)"
  using str_nat_chars by (auto simp: str_int_def)

lemma str_int_not_Nil: "str_int i \<noteq> []"
  by (simp add: str_int_def str_nat_not_Nil)

lemma scan_no_blank: "CHR '' '' \<notin> set a \<Longrightarrow> scan w (a @ rest) = scan (w @ a) rest"
  by (induction a arbitrary: w) auto

lemma mel_words_query:
  assumes "CHR '' '' \<notin> set t" and "t \<noteq> []"
  shows "mel_words (''ngst2Layers '' @ (''-id '' @ str_int layerId @ '' -paintTarget '' @ t
                      @ '' -q -w '') @ suffix)
         = ''ngst2Layers'' # ''-id'' # str_int layerId # ''-paintTarget'' # t # ''-q'' # ''-w''
             # scan [] suffix"
  using assms
  by (simp add: mel_words_def scan_no_blank str_int_no_blank str_int_not_Nil)

subsection \<open>The wrapper on the store\<close>

text \<open>
  On the store, each wrapper method is the store operation it asks for, whatever the mesh
  of the wrapper is.
\<close>

lemma store_ngst2Layers_reference_mesh:
  "store_ngst2Layers p args (kwargs_set kw ''targetReferenceMesh'' v) st
     = store_ngst2Layers p args' kw st"
  by (simp add: store_ngst2Layers_def map_of_kwargs_set)

lemma store_ngst2Layers_args:
  "store_ngst2Layers p args kw st = store_ngst2Layers p [] kw st"
  by (simp add: store_ngst2Layers_def)

lemma store_ngSkinLayerCmd:
  "ngSkinLayerCmd (store_maya p f) self [] kw st = store_ngst2Layers p [] kw st"
  using store_ngst2Layers_args [of p _ kw st]
  by (simp add: ngSkinLayerCmd_def store_maya_def store_ngst2Layers_reference_mesh
      split: option.splits)

lemma store_beginDataUpdate:
  "beginDataUpdate (store_maya p f) self st = (Inr PNone, scope_begin st)"
  by (simp add: beginDataUpdate_def store_ngSkinLayerCmd store_ngst2Layers_def store_request_def)

lemma store_endDataUpdate:
  "endDataUpdate (store_maya p f) self st = scope_end st"
  by (simp add: endDataUpdate_def store_ngSkinLayerCmd store_ngst2Layers_def store_request_def
      scope_end_def split: nat.splits)

lemma target_of_value_buffer_of: "target_of_value (target_value t) = buffer_of t"
  by (cases t) (simp_all add: target_of_value_def)

lemma store_setInfluenceWeights:
  "setInfluenceWeights (store_maya p f) self layerId influence ws undo st =
     (case buffer_of influence of
        None \<Rightarrow> (Inl CommandError, st)
      | Some target \<Rightarrow>
          if floatListAsString (store_maya p f) ws = [] then buffer_set layerId target [] st
          else (case p (floatListAsString (store_maya p f) ws) of
                  None \<Rightarrow> (Inl CommandError, st)
                | Some vs \<Rightarrow> buffer_set layerId target vs st))"
  by (auto simp: setInfluenceWeights_def store_ngSkinLayerCmd store_ngst2Layers_def
      store_request_def target_of_value_buffer_of buffer_set_def split: option.splits)

lemma store_maya_str_float: "str_float (store_maya p f) = f"
  by (simp add: store_maya_def)

lemma int_of_str_names: "int_of_str MASK = None" "int_of_str DUAL_QUATERNION = None"
  by (simp_all add: int_of_str_def nat_of_str_def MASK_def DUAL_QUATERNION_def digit_value_def)

lemma target_of_word_format:
  "buffer_of influence = Some target \<Longrightarrow> target_of_word (target_format influence) = Some target"
  by (cases influence)
     (auto simp: target_of_word_def int_of_str_str_int int_of_str_names split: if_splits)

lemma target_format_word:
  "buffer_of influence = Some target \<Longrightarrow>
     CHR '' '' \<notin> set (target_format influence) \<and> target_format influence \<noteq> []"
  by (cases influence)
     (auto simp: str_int_no_blank str_int_not_Nil MASK_def DUAL_QUATERNION_def split: if_splits)

lemma store_mel_query:
  assumes "buffer_of influence = Some target"
  shows "store_mel_eval (''ngst2Layers '' @ (''-id '' @ str_int layerId @ '' -paintTarget ''
             @ target_format influence @ '' -q -w '') @ suffix) st
         = buffer_get layerId target st"
proof -
  from target_format_word [OF assms]
  have w: "mel_words (''ngst2Layers '' @ (''-id '' @ str_int layerId @ '' -paintTarget ''
             @ target_format influence @ '' -q -w '') @ suffix)
           = ''ngst2Layers'' # ''-id'' # str_int layerId # ''-paintTarget''
               # target_format influence # ''-q'' # ''-w'' # scan [] suffix"
    by (intro mel_words_query) simp_all
  show ?thesis
    unfolding store_mel_eval_def w
    by (simp add: int_of_str_str_int target_of_word_format [OF assms])
qed

lemma store_getInfluenceWeights:
  assumes "buffer_of influence = Some target"
  shows "getInfluenceWeights (store_maya p f) self layerId influence st =
           (case buffer_get layerId target st of
              (Inl e, s') \<Rightarrow> (Inl e, s')
            | (Inr result, s') \<Rightarrow> (asFloatList result, s'))"
proof -
  have "ngSkinLayerCmdMel (store_maya p f) self
          (''-id '' @ str_int layerId @ '' -paintTarget '' @ target_format influence @ '' -q -w '')
          st = buffer_get layerId target st"
  proof (cases "mesh self")
    case None
    with store_mel_query [OF assms, of layerId "[]" st] show ?thesis
      by (simp add: ngSkinLayerCmdMel_def store_maya_def)
  next
    case (Some m)
    show ?thesis
    proof (cases "m = TARGET_REFERENCE_MESH")
      case True
      with Some store_mel_query [OF assms, of layerId "'' -targetReferenceMesh''" st]
      show ?thesis
        by (simp add: ngSkinLayerCmdMel_def store_maya_def)
    next
      case False
      with Some store_mel_query [OF assms, of layerId "'' '' @ m" st]
      show ?thesis
        by (simp add: ngSkinLayerCmdMel_def store_maya_def)
    qed
  qed
  then show ?thesis by (simp add: getInfluenceWeights_def)
qed

subsection \<open>Resetting a buffer\<close>

text \<open>
  C6. On a layer of the store and a paint target that names a buffer, setting the
  weights to the empty sequence (\<^verbatim>\<open>[]\<close>, or \<^verbatim>\<open>None\<close>) succeeds and leaves the
  buffer uninitialized (empty), and reading the same buffer back then returns the
  empty list. The wrapper sends the empty text for the empty sequence
  (\<^verbatim>\<open>__floatListAsString\<close>) and turns the empty reply into \<^verbatim>\<open>[]\<close>; the reset
  itself is the store's, modelled from the spec. \<^verbatim>\<open>setLayerMask\<close> and
  \<^verbatim>\<open>getLayerMask\<close> are these calls on the target \<^verbatim>\<open>mask\<close>.
\<close>

theorem empty_weights_reset_buffer:
  assumes "layerId \<in> set (layerIds st)"
      and "buffer_of influence = Some target"
      and "ws = None \<or> ws = Some []"
  shows "\<exists>st1. setInfluenceWeights (store_maya p f) self layerId influence ws undo st
                  = (Inr PNone, st1)
            \<and> buffers st1 (layerId, target) = []
            \<and> getInfluenceWeights (store_maya p f) self layerId influence st1 = (Inr [], st1)"
proof -
  from assms(3) have t: "floatListAsString (store_maya p f) ws = []"
    by (auto simp: floatListAsString_def)
  let ?st1 = "mutated (st\<lparr>buffers := (buffers st)((layerId, target) := [])\<rparr>)"
  have s: "setInfluenceWeights (store_maya p f) self layerId influence ws undo st
             = (Inr PNone, ?st1)"
    using assms(1,2) t by (simp add: store_setInfluenceWeights buffer_set_def)
  have b: "buffers ?st1 (layerId, target) = []" and l: "layerId \<in> set (layerIds ?st1)"
    using assms(1) by (simp_all add: mutated_def)
  have "getInfluenceWeights (store_maya p f) self layerId influence ?st1 = (Inr [], ?st1)"
    using l b by (simp add: store_getInfluenceWeights [OF assms(2)] buffer_get_def asFloatList_empty)
  with s b show ?thesis by blast
qed

theorem empty_weights_reset_buffer_witness:
  "fst (getLayerMask (store_maya example_parse example_format) \<lparr>mesh = Some ''body''\<rparr> 1
         (snd (setLayerMask (store_maya example_parse example_format) \<lparr>mesh = Some ''body''\<rparr> 1
                 (Some []) example_store)))
     = Inr []"
proof -
  have 1: "1 \<in> set (layerIds example_store)"
    by (simp add: example_store_def)
  have 2: "buffer_of (NamedPaintTarget MASK) = Some Mask"
    by simp
  have 3: "Some [] = None \<or> Some ([] :: real list) = Some []"
    by simp
  from empty_weights_reset_buffer [OF 1 2 3, of example_parse example_format
         "\<lparr>mesh = Some ''body''\<rparr>" True]
  show ?thesis
    by (auto simp: setLayerMask_def getLayerMask_def)
qed

subsection \<open>Nested batch update scopes\<close>

lemma buffer_set_accepted:
  assumes "layerId \<in> set (layerIds st)" and "vs = [] \<or> length vs = vertexCount st"
  shows "\<exists>st'. buffer_set layerId target vs st = (Inr PNone, st')
           \<and> suspension st' = suspension st
           \<and> (0 < suspension st \<longrightarrow> recompositions st' = recompositions st)
           \<and> layerIds st' = layerIds st \<and> vertexCount st' = vertexCount st"
  using assms by (auto simp: buffer_set_def mutated_def)

lemma store_setInfluenceWeights_accepted:
  assumes "layerId \<in> set (layerIds st)"
      and "buffer_of influence = Some target"
      and "weights_accepted p f (vertexCount st) ws"
  shows "\<exists>st'. setInfluenceWeights (store_maya p f) self layerId influence ws undo st
                  = (Inr PNone, st')
           \<and> suspension st' = suspension st
           \<and> (0 < suspension st \<longrightarrow> recompositions st' = recompositions st)
           \<and> layerIds st' = layerIds st \<and> vertexCount st' = vertexCount st"
proof (cases "floatListAsString (store_maya p f) ws = []")
  case True
  with assms(2) buffer_set_accepted [OF assms(1), of "[]" target] show ?thesis
    by (simp add: store_setInfluenceWeights)
next
  case False
  with assms(3) obtain vs where
    v: "p (floatListAsString (store_maya p f) ws) = Some vs"
       "vs = [] \<or> length vs = vertexCount st"
    by (auto simp: weights_accepted_def Let_def split: option.splits)
  with False assms(2) buffer_set_accepted [OF assms(1) v(2), of target] show ?thesis
    by (simp add: store_setInfluenceWeights)
qed

lemma run_call_valid_mutation:
  assumes "valid_call p f (layerIds st) (vertexCount st) c"
      and "c \<noteq> BeginDataUpdate" and "c \<noteq> EndDataUpdate"
  shows "\<exists>st'. run_call (store_maya p f) self c st = (Inr PNone, st')
           \<and> suspension st' = suspension st
           \<and> (0 < suspension st \<longrightarrow> recompositions st' = recompositions st)
           \<and> layerIds st' = layerIds st \<and> vertexCount st' = vertexCount st"
proof (cases c)
  case (SetInfluenceWeights layerId influence ws)
  with assms(1) obtain target where "buffer_of influence = Some target" by auto
  with SetInfluenceWeights assms(1)
    store_setInfluenceWeights_accepted [of layerId st influence target p f ws self True]
  show ?thesis by simp
next
  case (SetLayerMask layerId ws)
  have "buffer_of (NamedPaintTarget MASK) = Some Mask" by simp
  with SetLayerMask assms(1)
    store_setInfluenceWeights_accepted [of layerId st "NamedPaintTarget MASK" Mask p f ws self True]
  show ?thesis by (simp add: setLayerMask_def)
qed (use assms in simp_all)

lemma run_calls_inside_scope_returns:
  assumes "properly_nested d cs"
      and "suspension st = Suc b + d"
      and "list_all (valid_call p f (layerIds st) (vertexCount st)) cs"
  shows "\<exists>st'. run_calls (store_maya p f) self cs st = (Inr (), st')
           \<and> recompositions st' = recompositions st \<and> suspension st' = Suc b
           \<and> layerIds st' = layerIds st \<and> vertexCount st' = vertexCount st"
  using assms
proof (induction cs arbitrary: d st)
  case Nil
  then show ?case by simp
next
  case (Cons c cs)
  show ?case
  proof (cases c)
    case BeginDataUpdate
    let ?st1 = "scope_begin st"
    from BeginDataUpdate Cons.prems have n: "properly_nested (Suc d) cs" by simp
    have k: "suspension ?st1 = Suc b + Suc d"
      using Cons.prems(2) by (simp add: scope_begin_def)
    have v: "list_all (valid_call p f (layerIds ?st1) (vertexCount ?st1)) cs"
      using Cons.prems(3) by (simp add: scope_begin_def)
    from Cons.IH [OF n k v] BeginDataUpdate show ?thesis
      by (auto simp: store_beginDataUpdate scope_begin_def)
  next
    case EndDataUpdate
    with Cons.prems(1) obtain d' where d: "d = Suc d'" and n: "properly_nested d' cs"
      by (cases d) simp_all
    let ?st1 = "st\<lparr>suspension := Suc b + d'\<rparr>"
    have e: "scope_end st = (Inr PNone, ?st1)"
      using Cons.prems(2) d by (simp add: scope_end_def)
    have k: "suspension ?st1 = Suc b + d'" by simp
    have v: "list_all (valid_call p f (layerIds ?st1) (vertexCount ?st1)) cs"
      using Cons.prems(3) by simp
    from Cons.IH [OF n k v] EndDataUpdate e show ?thesis
      by (auto simp: store_endDataUpdate)
  next
    case (SetInfluenceWeights layerId influence ws)
    then have m: "c \<noteq> BeginDataUpdate" "c \<noteq> EndDataUpdate" by simp_all
    from Cons.prems(3) have "valid_call p f (layerIds st) (vertexCount st) c" by simp
    from run_call_valid_mutation [OF this m, of self] Cons.prems(2) obtain st1 where
      r: "run_call (store_maya p f) self c st = (Inr PNone, st1)"
      and k: "suspension st1 = Suc b + d" "recompositions st1 = recompositions st"
             "layerIds st1 = layerIds st" "vertexCount st1 = vertexCount st"
      by auto
    from SetInfluenceWeights Cons.prems(1) have n: "properly_nested d cs" by simp
    have v: "list_all (valid_call p f (layerIds st1) (vertexCount st1)) cs"
      using Cons.prems(3) k by simp
    from Cons.IH [OF n k(1) v] r k show ?thesis by auto
  next
    case (SetLayerMask layerId ws)
    then have m: "c \<noteq> BeginDataUpdate" "c \<noteq> EndDataUpdate" by simp_all
    from Cons.prems(3) have "valid_call p f (layerIds st) (vertexCount st) c" by simp
    from run_call_valid_mutation [OF this m, of self] Cons.prems(2) obtain st1 where
      r: "run_call (store_maya p f) self c st = (Inr PNone, st1)"
      and k: "suspension st1 = Suc b + d" "recompositions st1 = recompositions st"
             "layerIds st1 = layerIds st" "vertexCount st1 = vertexCount st"
      by auto
    from SetLayerMask Cons.prems(1) have n: "properly_nested d cs" by simp
    have v: "list_all (valid_call p f (layerIds st1) (vertexCount st1)) cs"
      using Cons.prems(3) k by simp
    from Cons.IH [OF n k(1) v] r k show ?thesis by auto
  qed
qed

lemma run_calls_append:
  "run_calls env self (cs @ ds) s =
     (case run_calls env self cs s of
        (Inl e, s') \<Rightarrow> (Inl e, s')
      | (Inr u, s') \<Rightarrow> run_calls env self ds s')"
  by (induction cs arbitrary: s) (auto split: prod.splits sum.splits)

text \<open>
  C8. A scope \<^verbatim>\<open>beginDataUpdate\<close>, body, \<^verbatim>\<open>endDataUpdate\<close> whose body is any
  properly nested sequence of further scopes and of weight mutations the store accepts,
  entered on a store that is not suspended. The run returns without an exception; when
  the body has ended no recomposition has run and the store is still suspended, at
  depth 1; after the outermost \<^verbatim>\<open>endDataUpdate\<close> exactly one recomposition has run
  and the store is not suspended. The body is any properly nested sequence, so the depth
  of nesting does not matter. The counter and the recomposition are the store's,
  modelled from the spec; the calls are the wrapper's.
\<close>

theorem nested_scope_recomposes_once:
  assumes "properly_nested 0 body"
      and "suspension st = 0"
      and "list_all (valid_call p f (layerIds st) (vertexCount st)) body"
  shows "\<exists>st1 st'.
           run_calls (store_maya p f) self (BeginDataUpdate # body) st = (Inr (), st1)
         \<and> recompositions st1 = recompositions st \<and> suspension st1 = 1
         \<and> run_calls (store_maya p f) self (BeginDataUpdate # body @ [EndDataUpdate]) st
             = (Inr (), st')
         \<and> recompositions st' = recompositions st + 1 \<and> suspension st' = 0"
proof -
  let ?st0 = "scope_begin st"
  have k: "suspension ?st0 = Suc 0 + 0"
    using assms(2) by (simp add: scope_begin_def)
  have v: "list_all (valid_call p f (layerIds ?st0) (vertexCount ?st0)) body"
    using assms(3) by (simp add: scope_begin_def)
  from run_calls_inside_scope_returns [OF assms(1) k v, of self] obtain st1 where
    b: "run_calls (store_maya p f) self body ?st0 = (Inr (), st1)"
    and r: "recompositions st1 = recompositions st" "suspension st1 = 1"
    by (auto simp: scope_begin_def)
  let ?st' = "st1\<lparr>suspension := 0, recompositions := recompositions st1 + 1\<rparr>"
  have e: "scope_end st1 = (Inr PNone, ?st')"
    using r(2) by (simp add: scope_end_def)
  have 1: "run_calls (store_maya p f) self (BeginDataUpdate # body) st = (Inr (), st1)"
    using b by (simp add: store_beginDataUpdate)
  have 2: "run_calls (store_maya p f) self (BeginDataUpdate # body @ [EndDataUpdate]) st
             = (Inr (), ?st')"
    using b e by (simp add: store_beginDataUpdate store_endDataUpdate run_calls_append)
  from 1 2 r show ?thesis
    by (intro exI [of _ st1] exI [of _ ?st']) simp
qed

theorem nested_scope_recomposes_once_witness:
  "fst (run_calls (store_maya example_parse example_format) \<lparr>mesh = None\<rparr>
          [BeginDataUpdate, BeginDataUpdate,
           SetInfluenceWeights 1 (InfluenceIndex 0) (Some [1, 1 / 2, 0]),
           EndDataUpdate, SetLayerMask 1 (Some []), EndDataUpdate]
          example_store) = Inr ()
 \<and> recompositions
      (snd (run_calls (store_maya example_parse example_format) \<lparr>mesh = None\<rparr>
             [BeginDataUpdate, BeginDataUpdate,
              SetInfluenceWeights 1 (InfluenceIndex 0) (Some [1, 1 / 2, 0]),
              EndDataUpdate, SetLayerMask 1 (Some [])]
             example_store)) = 0
 \<and> recompositions
      (snd (run_calls (store_maya example_parse example_format) \<lparr>mesh = None\<rparr>
             [BeginDataUpdate, BeginDataUpdate,
              SetInfluenceWeights 1 (InfluenceIndex 0) (Some [1, 1 / 2, 0]),
              EndDataUpdate, SetLayerMask 1 (Some []), EndDataUpdate]
             example_store)) = 1"
proof -
  let ?body = "[BeginDataUpdate, SetInfluenceWeights 1 (InfluenceIndex 0) (Some [1, 1 / 2, 0]),
                EndDataUpdate, SetLayerMask 1 (Some [])]"
  have 1: "properly_nested 0 ?body"
    by simp
  have 2: "suspension example_store = 0"
    by (simp add: example_store_def)
  have 3: "list_all (valid_call example_parse example_format (layerIds example_store)
             (vertexCount example_store)) ?body"
    by (simp add: weights_accepted_def floatListAsString_def store_maya_str_float
        example_format_def example_parse_def example_store_def)
  from nested_scope_recomposes_once [OF 1 2 3, of "\<lparr>mesh = None\<rparr>"] 2
  show ?thesis
    by (auto simp: example_store_def)
qed

end
